theory Spec2Isabelle
  imports Main "HOL-Library.Word"
begin

section \<open>JavaScript strings\<close>

text \<open>
  A JavaScript string is a sequence of 16-bit code units and \<open>.length\<close> counts code
  units, so a string is a list of 16-bit words. \<open>js\<close> writes an ASCII literal.
\<close>

type_synonym jschar = "16 word"
type_synonym jsstring = "jschar list"

definition js :: "string \<Rightarrow> jsstring" where
  "js s = map of_char s"

text \<open>
  The code units that \<open>String.prototype.trim\<close> strips and that the regular expression
  class \<open>\s\<close> matches: ECMAScript's WhiteSpace and LineTerminator productions (TAB, LF,
  VT, FF, CR, SP, NBSP, the Unicode space separators, LS, PS and the byte order mark).
\<close>

definition isWhiteSpace :: "jschar \<Rightarrow> bool" where
  "isWhiteSpace c \<longleftrightarrow>
     c = 0x0009 \<or> c = 0x000A \<or> c = 0x000B \<or> c = 0x000C \<or> c = 0x000D \<or>
     c = 0x0020 \<or> c = 0x00A0 \<or> c = 0x1680 \<or> (0x2000 \<le> c \<and> c \<le> 0x200A) \<or>
     c = 0x2028 \<or> c = 0x2029 \<or> c = 0x202F \<or> c = 0x205F \<or> c = 0x3000 \<or>
     c = 0xFEFF"

definition trim :: "jsstring \<Rightarrow> jsstring" where
  "trim s = rev (dropWhile isWhiteSpace (rev (dropWhile isWhiteSpace s)))"

text \<open>
  \<open>Array.prototype.join\<close> on an array of strings: the elements in order, the separator
  between each two neighbours, the empty string for the empty array.
\<close>

fun join :: "jsstring \<Rightarrow> jsstring list \<Rightarrow> jsstring" where
  "join sep [] = []"
| "join sep [x] = x"
| "join sep (x # y # ys) = x @ sep @ join sep (y # ys)"

text \<open>Decimal rendering of an array length inside a template literal.\<close>

fun toString :: "nat \<Rightarrow> jsstring" where
  "toString n =
     (if n < 10 then [0x0030 + of_nat n]
      else toString (n div 10) @ [0x0030 + of_nat (n mod 10)])"

declare toString.simps [simp del]

text \<open>
  \<open>S.split(/\s+/)\<close>, following the steps of \<open>RegExp.prototype[Symbol.split]\<close> with no
  limit. \<open>matchWhiteSpaceRun S q\<close> is the sticky match of \<open>\s+\<close> at index \<open>q\<close>: the
  end index of the longest run of white space that starts there, or failure when the
  code unit at \<open>q\<close> is not white space. An empty subject is handled before the loop: the
  result is the empty array when the pattern matches the empty string and the one-element
  array holding the subject otherwise.
\<close>

definition matchWhiteSpaceRun :: "jsstring \<Rightarrow> nat \<Rightarrow> nat option" where
  "matchWhiteSpaceRun S q =
     (let n = length (takeWhile isWhiteSpace (drop q S))
      in if n = 0 then None else Some (q + n))"

function splitLoop :: "jsstring \<Rightarrow> nat \<Rightarrow> nat \<Rightarrow> jsstring list" where
  "splitLoop S p q =
     (if q < length S then
        (case matchWhiteSpaceRun S q of
           None \<Rightarrow> splitLoop S p (q + 1)
         | Some e \<Rightarrow>
             if e = p then splitLoop S p (q + 1)
             else take (q - p) (drop p S) # splitLoop S e e)
      else [drop p S])"
  by pat_completeness auto
termination
  by (relation "measure (\<lambda>(S, p, q). length S - q)")
     (auto simp: matchWhiteSpaceRun_def Let_def diff_less_mono2 split: if_splits)

declare splitLoop.simps [simp del]

definition splitWhiteSpace :: "jsstring \<Rightarrow> jsstring list" where
  "splitWhiteSpace S =
     (if length S = 0 then
        (case matchWhiteSpaceRun S 0 of Some e \<Rightarrow> [] | None \<Rightarrow> [S])
      else splitLoop S 0 0)"

section \<open>The document\<close>

text \<open>
  The part of the DOM the extractor reads: a tree of element, text and comment nodes. An
  element carries its local name, its attributes (name and value) and its children in
  order. A document is the list of children of the document node. Local names and
  attribute names of HTML elements are lower case, and class names are compared exactly
  (a document in no-quirks mode).
\<close>

datatype node =
    Element jsstring "(jsstring \<times> jsstring) list" "node list"
  | Text jsstring
  | Comment jsstring

type_synonym document = "node list"

text \<open>The descendants of a node in tree order (a preorder walk), the node itself excluded.\<close>

fun descendants :: "node \<Rightarrow> node list" where
  "descendants (Element name attrs kids) = concat (map (\<lambda>k. k # descendants k) kids)"
| "descendants (Text d) = []"
| "descendants (Comment d) = []"

definition documentNodes :: "document \<Rightarrow> node list" where
  "documentNodes doc = concat (map (\<lambda>k. k # descendants k) doc)"

text \<open>\<open>textContent\<close>: for an element the data of its text descendants in tree order.\<close>

fun textData :: "node \<Rightarrow> jsstring" where
  "textData (Text d) = d"
| "textData (Element name attrs kids) = []"
| "textData (Comment d) = []"

fun textContent :: "node \<Rightarrow> jsstring" where
  "textContent (Element name attrs kids) =
     concat (map textData (descendants (Element name attrs kids)))"
| "textContent (Text d) = d"
| "textContent (Comment d) = d"

text \<open>
  The class list of an element: its \<open>class\<close> attribute split at ASCII white space (TAB,
  LF, FF, CR, SP), empty tokens dropped.
\<close>

definition isAsciiWhiteSpace :: "jschar \<Rightarrow> bool" where
  "isAsciiWhiteSpace c \<longleftrightarrow>
     c = 0x0009 \<or> c = 0x000A \<or> c = 0x000C \<or> c = 0x000D \<or> c = 0x0020"

fun tokens :: "jsstring \<Rightarrow> jsstring \<Rightarrow> jsstring list" where
  "tokens cur [] = (if cur = [] then [] else [cur])"
| "tokens cur (c # cs) =
     (if isAsciiWhiteSpace c then (if cur = [] then tokens [] cs else cur # tokens [] cs)
      else tokens (cur @ [c]) cs)"

definition classList :: "(jsstring \<times> jsstring) list \<Rightarrow> jsstring list" where
  "classList attrs = (case map_of attrs (js ''class'') of None \<Rightarrow> [] | Some v \<Rightarrow> tokens [] v)"

text \<open>
  The selectors the extractor uses are compound selectors made of a type selector, class
  selectors and attribute-equality selectors: \<open>div[data-testid="transcript-body"]\<close>,
  \<open>button\<close> and \<open>p.<class>\<close>. They are kept in parsed form. Only elements match.
\<close>

datatype simple_selector =
    TypeSel jsstring
  | ClassSel jsstring
  | AttrEq jsstring jsstring

type_synonym selector = "simple_selector list"

fun matchesSimple :: "node \<Rightarrow> simple_selector \<Rightarrow> bool" where
  "matchesSimple (Element name attrs kids) (TypeSel t) = (name = t)"
| "matchesSimple (Element name attrs kids) (ClassSel c) = (c \<in> set (classList attrs))"
| "matchesSimple (Element name attrs kids) (AttrEq a v) = (map_of attrs a = Some v)"
| "matchesSimple (Text d) s = False"
| "matchesSimple (Comment d) s = False"

fun isElement :: "node \<Rightarrow> bool" where
  "isElement (Element name attrs kids) = True"
| "isElement (Text d) = False"
| "isElement (Comment d) = False"

definition matches :: "selector \<Rightarrow> node \<Rightarrow> bool" where
  "matches sel n \<longleftrightarrow> isElement n \<and> list_all (matchesSimple n) sel"

text \<open>
  \<open>document.querySelector\<close> returns the first match among all nodes of the document in
  tree order, or null; \<open>element.querySelector\<close> and \<open>element.querySelectorAll\<close> search
  the descendants of the element.
\<close>

definition document_querySelector :: "selector \<Rightarrow> document \<Rightarrow> node option" where
  "document_querySelector sel doc = find (matches sel) (documentNodes doc)"

definition querySelector :: "selector \<Rightarrow> node \<Rightarrow> node option" where
  "querySelector sel n = find (matches sel) (descendants n)"

definition querySelectorAll :: "selector \<Rightarrow> node \<Rightarrow> node list" where
  "querySelectorAll sel n = filter (matches sel) (descendants n)"

section \<open>Effects\<close>

text \<open>
  What a call does besides returning: the console lines it prints, the clipboard write it
  requests and the steps of a file download, in the order the statements run. A failure
  of the platform is a value of type \<open>error\<close>.
\<close>

datatype error = NotAllowedError | TypeError

datatype effect =
    ConsoleWarn jsstring
  | ConsoleLog jsstring
  | ConsoleError jsstring error
  | ClipboardWriteText jsstring
  | NewBlob jsstring jsstring
  | CreateObjectURL
  | CreateElement jsstring
  | SetHref
  | SetDownload jsstring
  | AppendChild
  | Click
  | RemoveChild
  | RevokeObjectURL

section \<open>TranscriptExtractor\<close>

record entry =
  timestamp :: jsstring
  content :: jsstring

text \<open>The three fields the constructor sets.\<close>

definition transcriptBodySelector :: selector where
  "transcriptBodySelector =
     [TypeSel (js ''div''), AttrEq (js ''data-testid'') (js ''transcript-body'')]"

definition timestampClass :: jsstring where
  "timestampClass = js ''MuiTypography-uiBodySmall''"

definition contentClass :: jsstring where
  "contentClass = js ''MuiTypography-uiBody''"

text \<open>
  The callback of \<open>buttons.forEach\<close>: it pushes an entry when the button has both a
  timestamp paragraph and a content paragraph and leaves the array alone otherwise.
\<close>

definition visitButton :: "node \<Rightarrow> entry list \<Rightarrow> entry list" where
  "visitButton button transcriptEntries =
     (let timestampElement = querySelector [TypeSel (js ''p''), ClassSel timestampClass] button;
          contentElement = querySelector [TypeSel (js ''p''), ClassSel contentClass] button
      in case timestampElement of
           None \<Rightarrow> transcriptEntries
         | Some t \<Rightarrow>
             (case contentElement of
                None \<Rightarrow> transcriptEntries
              | Some c \<Rightarrow>
                  transcriptEntries @
                    [\<lparr>timestamp = trim (textContent t), content = trim (textContent c)\<rparr>]))"

text \<open>
  \<open>extractTranscript\<close> has no statement that can throw: its result is the array it
  returns and the console lines it printed.
\<close>

definition extractTranscript :: "document \<Rightarrow> entry list \<times> effect list" where
  "extractTranscript doc =
     (case document_querySelector transcriptBodySelector doc of
        None \<Rightarrow> ([], [ConsoleWarn (js ''Transcript body not found on this page'')])
      | Some transcriptBody \<Rightarrow>
          (let buttons = querySelectorAll [TypeSel (js ''button'')] transcriptBody
           in (fold visitButton buttons [], [])))"

text \<open>
  An omitted argument is \<open>None\<close>; the parameter then takes its declared default.
\<close>

definition extractContentOnly :: "document \<Rightarrow> jsstring list \<times> effect list" where
  "extractContentOnly doc =
     (case extractTranscript doc of
        (entries, printed) \<Rightarrow> (map content entries, printed))"

definition extractContentAsText :: "jsstring option \<Rightarrow> document \<Rightarrow> jsstring \<times> effect list" where
  "extractContentAsText separatorArg doc =
     (let separator = (case separatorArg of None \<Rightarrow> js '' '' | Some s \<Rightarrow> s)
      in case extractContentOnly doc of
           (contents, printed) \<Rightarrow> (join separator contents, printed))"

text \<open>
  The text that \<open>copyToClipboard\<close> and \<open>downloadTranscript\<close> build from the entries.
\<close>

definition entriesText :: "bool \<Rightarrow> jsstring \<Rightarrow> entry list \<Rightarrow> jsstring" where
  "entriesText includeTimestamps separator entries =
     (if includeTimestamps
      then join separator (map (\<lambda>entry. timestamp entry @ js '': '' @ content entry) entries)
      else join separator (map (\<lambda>entry. content entry) entries))"

text \<open>
  The clipboard side of the platform. \<open>navigator.clipboard\<close> is undefined where the
  platform offers no clipboard (a page outside a secure context, for one): evaluating
  \<open>navigator.clipboard.writeText\<close> then throws a TypeError before anything is called.
  Where it is defined, the platform decides what \<open>await writeText(text)\<close> does: \<open>None\<close>
  when the write completes, and the system clipboard then holds the text; \<open>Some e\<close> when
  it fails with \<open>e\<close> (the promise is rejected, or the call throws), and the system
  clipboard stays as it was.
\<close>

record navigator =
  clipboard :: "(jsstring \<Rightarrow> error option) option"

text \<open>
  A run of \<open>copyToClipboard\<close>: how it ended, what it did, and the text on the system
  clipboard afterwards (\<open>None\<close> when the clipboard holds no text).
\<close>

record 'a copyRun =
  outcome :: 'a
  effects :: "effect list"
  clipboardAfter :: "jsstring option"

text \<open>
  \<open>copyToClipboardTry\<close> is the body of the \<open>try\<close> block, with a failure as \<open>Inl\<close>;
  \<open>copyToClipboard\<close> adds the \<open>catch\<close> clause, and its outcome is the value the
  returned promise resolves to. \<open>clipboardBefore\<close> is the text on the system clipboard
  when the call starts.
\<close>

definition copyToClipboardTry ::
  "navigator \<Rightarrow> jsstring option \<Rightarrow> bool option \<Rightarrow> jsstring option \<Rightarrow> document \<Rightarrow>
     (error + bool) copyRun" where
  "copyToClipboardTry nav clipboardBefore includeTimestampsArg separatorArg doc =
     (let includeTimestamps = (case includeTimestampsArg of None \<Rightarrow> False | Some b \<Rightarrow> b);
          separator = (case separatorArg of None \<Rightarrow> [0x000A, 0x000A] | Some s \<Rightarrow> s)
      in case extractTranscript doc of
           (entries, printed) \<Rightarrow>
             if length entries = 0
             then \<lparr>outcome = Inr False,
                   effects = printed @ [ConsoleWarn (js ''No transcript content found'')],
                   clipboardAfter = clipboardBefore\<rparr>
             else
               (let textToCopy = entriesText includeTimestamps separator entries
                in case clipboard nav of
                     None \<Rightarrow>
                       \<lparr>outcome = Inl TypeError, effects = printed,
                        clipboardAfter = clipboardBefore\<rparr>
                   | Some writeText \<Rightarrow>
                       (case writeText textToCopy of
                          Some failure \<Rightarrow>
                            \<lparr>outcome = Inl failure,
                             effects = printed @ [ClipboardWriteText textToCopy],
                             clipboardAfter = clipboardBefore\<rparr>
                        | None \<Rightarrow>
                            \<lparr>outcome = Inr True,
                             effects =
                               printed @
                                 [ClipboardWriteText textToCopy,
                                  ConsoleLog (js ''Copied '' @ toString (length entries) @
                                              js '' transcript entries to clipboard'')],
                             clipboardAfter = Some textToCopy\<rparr>)))"

definition copyToClipboard ::
  "navigator \<Rightarrow> jsstring option \<Rightarrow> bool option \<Rightarrow> jsstring option \<Rightarrow> document \<Rightarrow>
     bool copyRun" where
  "copyToClipboard nav clipboardBefore includeTimestampsArg separatorArg doc =
     (let attempt = copyToClipboardTry nav clipboardBefore includeTimestampsArg separatorArg doc
      in case outcome attempt of
           Inr result \<Rightarrow>
             \<lparr>outcome = result, effects = effects attempt,
              clipboardAfter = clipboardAfter attempt\<rparr>
         | Inl failure \<Rightarrow>
             \<lparr>outcome = False,
              effects =
                effects attempt @ [ConsoleError (js ''Failed to copy to clipboard:'') failure],
              clipboardAfter = clipboardAfter attempt\<rparr>)"

text \<open>
  \<open>document.body\<close>: the first \<open>body\<close> or \<open>frameset\<close> child of the \<open>html\<close> document
  element, or null. Appending to a null body throws a TypeError, which
  \<open>downloadTranscript\<close> does not catch.
\<close>

fun hasName :: "jsstring \<Rightarrow> node \<Rightarrow> bool" where
  "hasName t (Element name attrs kids) = (name = t)"
| "hasName t (Text d) = False"
| "hasName t (Comment d) = False"

fun childNodes :: "node \<Rightarrow> node list" where
  "childNodes (Element name attrs kids) = kids"
| "childNodes (Text d) = []"
| "childNodes (Comment d) = []"

definition document_body :: "document \<Rightarrow> node option" where
  "document_body doc =
     (case find isElement doc of
        None \<Rightarrow> None
      | Some root \<Rightarrow>
          if hasName (js ''html'') root
          then find (\<lambda>k. hasName (js ''body'') k \<or> hasName (js ''frameset'') k) (childNodes root)
          else None)"

definition downloadTranscript ::
  "jsstring option \<Rightarrow> bool option \<Rightarrow> jsstring option \<Rightarrow> document \<Rightarrow> (error + unit) \<times> effect list" where
  "downloadTranscript filenameArg includeTimestampsArg separatorArg doc =
     (let filename = (case filenameArg of None \<Rightarrow> js ''transcript.txt'' | Some f \<Rightarrow> f);
          includeTimestamps = (case includeTimestampsArg of None \<Rightarrow> False | Some b \<Rightarrow> b);
          separator = (case separatorArg of None \<Rightarrow> [0x000A, 0x000A] | Some s \<Rightarrow> s)
      in case extractTranscript doc of
           (entries, printed) \<Rightarrow>
             if length entries = 0
             then (Inr (), printed @ [ConsoleWarn (js ''No transcript content found'')])
             else
               (let fileContent = entriesText includeTimestamps separator entries;
                    prepared =
                      [NewBlob fileContent (js ''text/plain''), CreateObjectURL,
                       CreateElement (js ''a''), SetHref, SetDownload filename]
                in case document_body doc of
                     None \<Rightarrow> (Inl TypeError, printed @ prepared)
                   | Some body \<Rightarrow>
                       (Inr (),
                        printed @ prepared @
                          [AppendChild, Click, RemoveChild, RevokeObjectURL,
                           ConsoleLog (js ''Downloaded transcript with '' @
                                       toString (length entries) @ js '' entries'')])))"

record summary =
  totalEntries :: nat
  totalCharacters :: nat
  totalWords :: nat
  duration :: jsstring
  firstTimestamp :: "jsstring option"
  lastTimestamp :: "jsstring option"

text \<open>
  \<open>getSummary\<close> extracts twice: once for the entries and once, through
  \<open>extractContentAsText()\<close> with its default separator, for the text. A null timestamp
  is \<open>None\<close>.
\<close>

definition getSummary :: "document \<Rightarrow> summary \<times> effect list" where
  "getSummary doc =
     (case extractTranscript doc of
        (entries, printed) \<Rightarrow>
          (case extractContentAsText None doc of
             (contentText, printed') \<Rightarrow>
               (\<lparr>totalEntries = length entries,
                 totalCharacters = length contentText,
                 totalWords = length (splitWhiteSpace contentText),
                 duration =
                   (if length entries > 0 then timestamp (entries ! (length entries - 1))
                    else js ''00:00:00''),
                 firstTimestamp =
                   (if length entries > 0 then Some (timestamp (entries ! 0)) else None),
                 lastTimestamp =
                   (if length entries > 0 then Some (timestamp (entries ! (length entries - 1)))
                    else None)\<rparr>,
                printed @ printed')))"

section \<open>The vocabulary of the specification\<close>

text \<open>
  The specification speaks of the container, of its candidates and of well-formed and
  malformed candidates. The candidates of a container are its \<open>button\<close> descendants in
  document order. A candidate is well-formed when it has a descendant marked as timestamp
  (a \<open>p\<close> element of class \<open>timestampClass\<close>) and a descendant marked as content (a \<open>p\<close>
  element of class \<open>contentClass\<close>), and malformed when at least one of the two is
  missing. The marked element of a candidate is the first such descendant in document
  order.
\<close>

definition timestampMarker :: selector where
  "timestampMarker = [TypeSel (js ''p''), ClassSel timestampClass]"

definition contentMarker :: selector where
  "contentMarker = [TypeSel (js ''p''), ClassSel contentClass]"

definition candidates :: "node \<Rightarrow> node list" where
  "candidates container = filter (matches [TypeSel (js ''button'')]) (descendants container)"

definition wellFormed :: "node \<Rightarrow> bool" where
  "wellFormed candidate \<longleftrightarrow>
     list_ex (matches timestampMarker) (descendants candidate) \<and>
     list_ex (matches contentMarker) (descendants candidate)"

definition malformed :: "node \<Rightarrow> bool" where
  "malformed candidate \<longleftrightarrow>
     \<not> list_ex (matches timestampMarker) (descendants candidate) \<or>
     \<not> list_ex (matches contentMarker) (descendants candidate)"

definition markedElement :: "selector \<Rightarrow> node \<Rightarrow> node" where
  "markedElement marker candidate = the (find (matches marker) (descendants candidate))"

definition entryOf :: "node \<Rightarrow> entry" where
  "entryOf candidate =
     \<lparr>timestamp = trim (textContent (markedElement timestampMarker candidate)),
      content = trim (textContent (markedElement contentMarker candidate))\<rparr>"

text \<open>
  The texts a trace asked the clipboard to take, the texts it made blobs of, and the
  effects that are console lines.
\<close>

fun writtenText :: "effect \<Rightarrow> jsstring list" where
  "writtenText (ClipboardWriteText t) = [t]"
| "writtenText e = []"

definition clipboardWrites :: "effect list \<Rightarrow> jsstring list" where
  "clipboardWrites trace = concat (map writtenText trace)"

fun blobText :: "effect \<Rightarrow> jsstring list" where
  "blobText (NewBlob t mime) = [t]"
| "blobText e = []"

definition blobTexts :: "effect list \<Rightarrow> jsstring list" where
  "blobTexts trace = concat (map blobText trace)"

fun isDiagnostic :: "effect \<Rightarrow> bool" where
  "isDiagnostic (ConsoleWarn m) = True"
| "isDiagnostic (ConsoleLog m) = True"
| "isDiagnostic (ConsoleError m e) = True"
| "isDiagnostic e = False"

section \<open>Example documents\<close>

text \<open>
  A page with a transcript body of three candidates: two well-formed ones (the second
  inside a wrapper element, the texts padded with white space) and, between them, one
  with a timestamp and no content.
\<close>

definition paragraphElement :: "string \<Rightarrow> string \<Rightarrow> node" where
  "paragraphElement classes s = Element (js ''p'') [(js ''class'', js classes)] [Text (js s)]"

definition transcriptBodyExample :: node where
  "transcriptBodyExample =
     Element (js ''div'') [(js ''data-testid'', js ''transcript-body'')]
       [Element (js ''button'') [(js ''type'', js ''button'')]
          [paragraphElement ''MuiTypography-root MuiTypography-uiBodySmall'' '' 00:00:01 '',
           paragraphElement ''MuiTypography-root MuiTypography-uiBody'' ''Hello  ''],
        Element (js ''button'') []
          [paragraphElement ''MuiTypography-root MuiTypography-uiBodySmall'' ''00:00:03''],
        Element (js ''div'') []
          [Element (js ''button'') []
             [paragraphElement ''MuiTypography-uiBodySmall'' ''00:00:05'',
              Comment (js ''text''),
              paragraphElement ''MuiTypography-uiBody'' ''world'']]]"

definition pageExample :: document where
  "pageExample =
     [Element (js ''html'') []
        [Element (js ''head'') [] [],
         Element (js ''body'') []
           [Element (js ''div'') [(js ''id'', js ''root'')] [transcriptBodyExample]]]]"

text \<open>A page with no transcript body, and a page whose transcript body has no button.\<close>

definition pageWithoutTranscript :: document where
  "pageWithoutTranscript =
     [Element (js ''html'') []
        [Element (js ''body'') []
           [Element (js ''div'') [(js ''data-testid'', js ''player'')]
              [Element (js ''button'') [] [Text (js ''Play'')]]]]]"

definition pageWithEmptyTranscript :: document where
  "pageWithEmptyTranscript =
     [Element (js ''html'') []
        [Element (js ''body'') []
           [Element (js ''div'') [(js ''data-testid'', js ''transcript-body'')]
              [Text (js ''No transcript available'')]]]]"

text \<open>
  Three platforms: one whose clipboard takes every text, one whose clipboard refuses every
  text, and one with no clipboard at all.
\<close>

definition grantingNavigator :: navigator where
  "grantingNavigator = \<lparr>clipboard = Some (\<lambda>t. None)\<rparr>"

definition denyingNavigator :: navigator where
  "denyingNavigator = \<lparr>clipboard = Some (\<lambda>t. Some NotAllowedError)\<rparr>"

definition clipboardlessNavigator :: navigator where
  "clipboardlessNavigator = \<lparr>clipboard = None\<rparr>"

section \<open>Facts about the extraction loop\<close>

lemma find_None_list_ex: "find P xs = None \<longleftrightarrow> \<not> list_ex P xs"
  by (induction xs) auto

lemma visitButton_wellFormed:
  "wellFormed b \<Longrightarrow> visitButton b acc = acc @ [entryOf b]"
  by (auto simp: visitButton_def wellFormed_def entryOf_def markedElement_def querySelector_def
      timestampMarker_def contentMarker_def find_None_list_ex Let_def split: option.splits)

lemma visitButton_not_wellFormed:
  "\<not> wellFormed b \<Longrightarrow> visitButton b acc = acc"
  by (auto simp: visitButton_def wellFormed_def querySelector_def
      timestampMarker_def contentMarker_def Let_def find_None_list_ex [symmetric]
      split: option.splits)

lemma forEach_visitButton:
  "fold visitButton bs acc = acc @ map entryOf (filter wellFormed bs)"
proof (induction bs arbitrary: acc)
  case Nil
  show ?case by simp
next
  case (Cons b bs)
  show ?case
  proof (cases "wellFormed b")
    case True
    then show ?thesis by (simp add: Cons.IH visitButton_wellFormed)
  next
    case False
    then show ?thesis by (simp add: Cons.IH visitButton_not_wellFormed)
  qed
qed

lemma malformed_iff: "malformed b \<longleftrightarrow> \<not> wellFormed b"
  by (auto simp: malformed_def wellFormed_def)

lemma extractTranscript_container:
  "document_querySelector transcriptBodySelector doc = Some container \<Longrightarrow>
   extractTranscript doc = (map entryOf (filter wellFormed (candidates container)), [])"
  by (simp add: extractTranscript_def querySelectorAll_def candidates_def forEach_visitButton)

lemma extractTranscript_no_container:
  "document_querySelector transcriptBodySelector doc = None \<Longrightarrow>
   extractTranscript doc = ([], [ConsoleWarn (js ''Transcript body not found on this page'')])"
  by (simp add: extractTranscript_def)

lemma extractTranscript_trace:
  "snd (extractTranscript doc) = [] \<or>
   snd (extractTranscript doc) = [ConsoleWarn (js ''Transcript body not found on this page'')]"
  by (simp add: extractTranscript_def Let_def split: option.splits)

lemma clipboardWrites_extractTranscript: "clipboardWrites (snd (extractTranscript doc)) = []"
  using extractTranscript_trace [of doc] by (auto simp: clipboardWrites_def)

lemma diagnostics_extractTranscript: "list_all isDiagnostic (snd (extractTranscript doc))"
  using extractTranscript_trace [of doc] by auto

lemma length_join:
  "length (join sep xs) = sum_list (map length xs) + (length xs - 1) * length sep"
  by (induction sep xs rule: join.induct) simp_all

lemma splitWhiteSpace_empty: "splitWhiteSpace [] = [[]]"
  by (simp add: splitWhiteSpace_def matchWhiteSpaceRun_def)

section \<open>Facts about copying and downloading\<close>

lemma blobTexts_extractTranscript: "blobTexts (snd (extractTranscript doc)) = []"
  using extractTranscript_trace [of doc] by (auto simp: blobTexts_def)

lemma copyToClipboardTry_no_entries:
  "extractTranscript doc = ([], printed) \<Longrightarrow>
   copyToClipboardTry nav before includeTimestampsArg separatorArg doc =
     \<lparr>outcome = Inr False,
      effects = printed @ [ConsoleWarn (js ''No transcript content found'')],
      clipboardAfter = before\<rparr>"
  by (simp add: copyToClipboardTry_def Let_def)

lemma copyToClipboardTry_no_clipboard:
  "extractTranscript doc = (entries, printed) \<Longrightarrow> entries \<noteq> [] \<Longrightarrow>
   clipboard nav = None \<Longrightarrow>
   copyToClipboardTry nav before includeTimestampsArg separatorArg doc =
     \<lparr>outcome = Inl TypeError, effects = printed, clipboardAfter = before\<rparr>"
  by (simp add: copyToClipboardTry_def Let_def)

lemma copyToClipboardTry_failed:
  "extractTranscript doc = (entries, printed) \<Longrightarrow> entries \<noteq> [] \<Longrightarrow>
   clipboard nav = Some writeText \<Longrightarrow>
   payload = entriesText (case includeTimestampsArg of None \<Rightarrow> False | Some b \<Rightarrow> b)
       (case separatorArg of None \<Rightarrow> [0x000A, 0x000A] | Some s \<Rightarrow> s) entries \<Longrightarrow>
   writeText payload = Some failure \<Longrightarrow>
   copyToClipboardTry nav before includeTimestampsArg separatorArg doc =
     \<lparr>outcome = Inl failure, effects = printed @ [ClipboardWriteText payload],
      clipboardAfter = before\<rparr>"
  by (simp add: copyToClipboardTry_def Let_def)

lemma copyToClipboardTry_written:
  "extractTranscript doc = (entries, printed) \<Longrightarrow> entries \<noteq> [] \<Longrightarrow>
   clipboard nav = Some writeText \<Longrightarrow>
   payload = entriesText (case includeTimestampsArg of None \<Rightarrow> False | Some b \<Rightarrow> b)
       (case separatorArg of None \<Rightarrow> [0x000A, 0x000A] | Some s \<Rightarrow> s) entries \<Longrightarrow>
   writeText payload = None \<Longrightarrow>
   copyToClipboardTry nav before includeTimestampsArg separatorArg doc =
     \<lparr>outcome = Inr True,
      effects = printed @ [ClipboardWriteText payload,
         ConsoleLog (js ''Copied '' @ toString (length entries) @
                     js '' transcript entries to clipboard'')],
      clipboardAfter = Some payload\<rparr>"
  by (simp add: copyToClipboardTry_def Let_def)

lemma downloadTranscript_blob:
  "extractTranscript doc = (entries, printed) \<Longrightarrow> entries \<noteq> [] \<Longrightarrow>
   blobTexts (snd (downloadTranscript filenameArg includeTimestampsArg separatorArg doc)) =
     [entriesText (case includeTimestampsArg of None \<Rightarrow> False | Some b \<Rightarrow> b)
        (case separatorArg of None \<Rightarrow> [0x000A, 0x000A] | Some s \<Rightarrow> s) entries]"
  using blobTexts_extractTranscript [of doc]
  by (simp add: downloadTranscript_def Let_def blobTexts_def split: option.splits)

lemma copyToClipboard_requests:
  "extractTranscript doc = (entries, printed) \<Longrightarrow> entries \<noteq> [] \<Longrightarrow>
   clipboardWrites (effects (copyToClipboard nav before includeTimestampsArg separatorArg doc)) =
     (case clipboard nav of
        None \<Rightarrow> []
      | Some writeText \<Rightarrow>
          [entriesText (case includeTimestampsArg of None \<Rightarrow> False | Some b \<Rightarrow> b)
             (case separatorArg of None \<Rightarrow> [0x000A, 0x000A] | Some s \<Rightarrow> s) entries])"
  using clipboardWrites_extractTranscript [of doc]
  by (simp add: copyToClipboard_def copyToClipboardTry_def Let_def clipboardWrites_def
      split: option.splits)

lemma copyToClipboard_after:
  "extractTranscript doc = (entries, printed) \<Longrightarrow> entries \<noteq> [] \<Longrightarrow>
   clipboardAfter (copyToClipboard nav before includeTimestampsArg separatorArg doc) =
     (case clipboard nav of
        None \<Rightarrow> before
      | Some writeText \<Rightarrow>
          (case writeText
                  (entriesText (case includeTimestampsArg of None \<Rightarrow> False | Some b \<Rightarrow> b)
                     (case separatorArg of None \<Rightarrow> [0x000A, 0x000A] | Some s \<Rightarrow> s) entries) of
             None \<Rightarrow>
               Some (entriesText (case includeTimestampsArg of None \<Rightarrow> False | Some b \<Rightarrow> b)
                       (case separatorArg of None \<Rightarrow> [0x000A, 0x000A] | Some s \<Rightarrow> s) entries)
           | Some failure \<Rightarrow> before))"
  by (simp add: copyToClipboard_def copyToClipboardTry_def Let_def split: option.splits)

section \<open>Properties of the extractor\<close>

text \<open>
  C1. When the container of a document holds \<open>N\<close> well-formed candidates and \<open>M\<close>
  malformed ones, \<open>extractTranscript()\<close> returns exactly \<open>N\<close> entries: one for each
  well-formed candidate, in the document order of the candidates, with the trimmed text of
  the candidate's timestamp element and of its content element. The \<open>M\<close> malformed
  candidates are the remaining candidates; they add nothing to the result and nothing is
  printed about them.
\<close>

theorem extractTranscript_wellformed_candidates:
  assumes "document_querySelector transcriptBodySelector doc = Some container"
    and "length (filter wellFormed (candidates container)) = N"
    and "length (filter malformed (candidates container)) = M"
  shows "length (fst (extractTranscript doc)) = N \<and>
         fst (extractTranscript doc) = map entryOf (filter wellFormed (candidates container)) \<and>
         snd (extractTranscript doc) = [] \<and>
         length (candidates container) = N + M"
proof -
  have "(\<lambda>b. \<not> wellFormed b) = malformed"
    by (simp add: fun_eq_iff malformed_iff)
  then have "length (candidates container) = N + M"
    using assms(2,3) sum_length_filter_compl [of wellFormed "candidates container"] by simp
  then show ?thesis
    using assms by (simp add: extractTranscript_container)
qed

theorem extractTranscript_wellformed_candidates_witness:
  "document_querySelector transcriptBodySelector pageExample = Some transcriptBodyExample \<and>
   length (filter wellFormed (candidates transcriptBodyExample)) = 2 \<and>
   length (filter malformed (candidates transcriptBodyExample)) = 1 \<and>
   length (candidates transcriptBodyExample) = 3 \<and>
   fst (extractTranscript pageExample) =
     [\<lparr>timestamp = js ''00:00:01'', content = js ''Hello''\<rparr>,
      \<lparr>timestamp = js ''00:00:05'', content = js ''world''\<rparr>] \<and>
   map entryOf (filter wellFormed (candidates transcriptBodyExample)) =
     [\<lparr>timestamp = js ''00:00:01'', content = js ''Hello''\<rparr>,
      \<lparr>timestamp = js ''00:00:05'', content = js ''world''\<rparr>]"
proof -
  have c: "document_querySelector transcriptBodySelector pageExample = Some transcriptBodyExample"
    by code_simp
  have n: "length (filter wellFormed (candidates transcriptBodyExample)) = 2"
    by code_simp
  have m: "length (filter malformed (candidates transcriptBodyExample)) = 1"
    by code_simp
  have e: "map entryOf (filter wellFormed (candidates transcriptBodyExample)) =
     [\<lparr>timestamp = js ''00:00:01'', content = js ''Hello''\<rparr>,
      \<lparr>timestamp = js ''00:00:05'', content = js ''world''\<rparr>]"
    by code_simp
  show ?thesis
    using extractTranscript_wellformed_candidates [OF c n m] c n m e by simp
qed

text \<open>
  C8. When the container selector matches no element of the document,
  \<open>extractTranscript()\<close> returns the empty array and prints one warning,
  \<open>Transcript body not found on this page\<close>. It returns normally: the model of
  \<open>extractTranscript\<close> has no failing branch because the method has no statement that
  can throw.
\<close>

theorem extractTranscript_missing_container:
  assumes "\<forall>n \<in> set (documentNodes doc). \<not> matches transcriptBodySelector n"
  shows "extractTranscript doc =
           ([], [ConsoleWarn (js ''Transcript body not found on this page'')])"
proof -
  have "document_querySelector transcriptBodySelector doc = None"
    using assms by (simp add: document_querySelector_def find_None_iff)
  then show ?thesis by (rule extractTranscript_no_container)
qed

theorem extractTranscript_missing_container_witness:
  "filter (matches transcriptBodySelector) (documentNodes pageWithoutTranscript) = [] \<and>
   extractTranscript pageWithoutTranscript =
     ([], [ConsoleWarn (js ''Transcript body not found on this page'')])"
proof -
  have f: "filter (matches transcriptBodySelector) (documentNodes pageWithoutTranscript) = []"
    by code_simp
  then have h: "\<forall>n \<in> set (documentNodes pageWithoutTranscript). \<not> matches transcriptBodySelector n"
    by (simp add: filter_empty_conv)
  show ?thesis
    using extractTranscript_missing_container [OF h] f by simp
qed

text \<open>
  C2. \<open>extractContentOnly()\<close> is the projection of \<open>extractTranscript()\<close> onto the
  content field: the same length, the same order, and element \<open>i\<close> is the content of
  entry \<open>i\<close>.
\<close>

theorem extractContentOnly_projection:
  "fst (extractContentOnly doc) = map content (fst (extractTranscript doc)) \<and>
   length (fst (extractContentOnly doc)) = length (fst (extractTranscript doc)) \<and>
   (\<forall>i < length (fst (extractTranscript doc)).
      fst (extractContentOnly doc) ! i = content (fst (extractTranscript doc) ! i))"
  by (simp add: extractContentOnly_def split: prod.splits)

theorem extractContentOnly_projection_witness:
  "(1::nat) < length (fst (extractTranscript pageExample)) \<and>
   fst (extractContentOnly pageExample) ! 1 = content (fst (extractTranscript pageExample) ! 1) \<and>
   fst (extractContentOnly pageExample) ! 1 = js ''world''"
proof -
  have h: "(1::nat) < length (fst (extractTranscript pageExample))"
    by code_simp
  have v: "content (fst (extractTranscript pageExample) ! 1) = js ''world''"
    by code_simp
  show ?thesis
    using extractContentOnly_projection [of pageExample] h v by simp
qed

text \<open>
  C3. \<open>extractContentAsText(sep)\<close> is the elements of \<open>extractContentOnly()\<close> joined
  with \<open>sep\<close>; with zero entries the result is the empty string, whatever the separator
  argument; an omitted separator is a single space.
\<close>

theorem extractContentAsText_join:
  "fst (extractContentAsText (Some sep) doc) = join sep (fst (extractContentOnly doc)) \<and>
   (fst (extractTranscript doc) = [] \<longrightarrow> fst (extractContentAsText separatorArg doc) = []) \<and>
   extractContentAsText None doc = extractContentAsText (Some (js '' '')) doc \<and>
   js '' '' = [0x0020]"
  by (simp add: extractContentAsText_def extractContentOnly_def js_def split: prod.splits)

theorem extractContentAsText_join_witness:
  "fst (extractTranscript pageWithEmptyTranscript) = [] \<and>
   fst (extractContentAsText (Some (js ''; '')) pageWithEmptyTranscript) = [] \<and>
   fst (extractContentAsText None pageWithEmptyTranscript) = []"
proof -
  have h: "fst (extractTranscript pageWithEmptyTranscript) = []"
    by code_simp
  have a: "fst (extractContentAsText (Some (js ''; '')) pageWithEmptyTranscript) = []"
    using extractContentAsText_join [of "js ''; ''" pageWithEmptyTranscript "Some (js ''; '')"] h
    by blast
  have b: "fst (extractContentAsText None pageWithEmptyTranscript) = []"
    using extractContentAsText_join [of "js ''; ''" pageWithEmptyTranscript None] h
    by blast
  show ?thesis
    using h a b by blast
qed

text \<open>
  C4, with the platform made explicit. On a document with at least one entry and for
  every separator \<open>sep\<close>: where the platform has \<open>navigator.clipboard\<close>,
  \<open>copyToClipboard(false, sep)\<close> asks it to take exactly one text, the string
  \<open>extractContentAsText(sep)\<close> of the same document, and when that write completes the
  system clipboard holds exactly that string and the result is true. Where
  \<open>navigator.clipboard\<close> is missing, or the write fails, the result is false and the
  system clipboard is as it was. So whenever the result is true the string written is
  \<open>extractContentAsText(sep)\<close>.
\<close>

theorem copyToClipboard_roundtrip_completed:
  fixes nav :: navigator and before :: "jsstring option" and sep :: jsstring
    and doc :: document
  defines "run \<equiv> copyToClipboard nav before (Some False) (Some sep) doc"
    and "expected \<equiv> fst (extractContentAsText (Some sep) doc)"
  assumes "fst (extractTranscript doc) \<noteq> []"
  shows
  "(case clipboard nav of
      None \<Rightarrow>
        clipboardWrites (effects run) = [] \<and> outcome run = False \<and>
        clipboardAfter run = before
    | Some writeText \<Rightarrow>
        clipboardWrites (effects run) = [expected] \<and>
        (case writeText expected of
           None \<Rightarrow> outcome run = True \<and> clipboardAfter run = Some expected
         | Some failure \<Rightarrow> outcome run = False \<and> clipboardAfter run = before)) \<and>
   (outcome run = True \<longrightarrow>
      clipboardAfter run = Some expected \<and> clipboardWrites (effects run) = [expected])"
proof -
  obtain entries printed where e: "extractTranscript doc = (entries, printed)"
    by (cases "extractTranscript doc")
  have p: "clipboardWrites printed = []"
    using clipboardWrites_extractTranscript [of doc] e by simp
  from assms e have ne: "entries \<noteq> []" by simp
  have x: "expected = entriesText (case Some False of None \<Rightarrow> False | Some b \<Rightarrow> b)
       (case Some sep of None \<Rightarrow> [0x000A, 0x000A] | Some s \<Rightarrow> s) entries"
    using e by (simp add: expected_def extractContentAsText_def extractContentOnly_def
        entriesText_def)
  show ?thesis
  proof (cases "clipboard nav")
    case None
    with e p ne copyToClipboardTry_no_clipboard [OF e ne None, of before "Some False" "Some sep"]
    show ?thesis
      by (simp add: run_def copyToClipboard_def clipboardWrites_def)
  next
    case (Some writeText)
    show ?thesis
    proof (cases "writeText expected")
      case None
      with p Some copyToClipboardTry_written [OF e ne Some x None, of before]
      show ?thesis
        by (simp add: run_def copyToClipboard_def clipboardWrites_def)
    next
      case (Some failure)
      with p \<open>clipboard nav = Some writeText\<close>
        copyToClipboardTry_failed [OF e ne \<open>clipboard nav = Some writeText\<close> x Some, of before]
      show ?thesis
        by (simp add: run_def copyToClipboard_def clipboardWrites_def)
    qed
  qed
qed

theorem copyToClipboard_roundtrip_completed_witness:
  "fst (extractTranscript pageExample) \<noteq> [] \<and>
   outcome (copyToClipboard grantingNavigator None (Some False) (Some (js '' | '')) pageExample) =
     True \<and>
   clipboardAfter (copyToClipboard grantingNavigator None (Some False) (Some (js '' | '')) pageExample) =
     Some (js ''Hello | world'') \<and>
   clipboardWrites (effects
     (copyToClipboard grantingNavigator None (Some False) (Some (js '' | '')) pageExample)) =
     [js ''Hello | world''] \<and>
   fst (extractContentAsText (Some (js '' | '')) pageExample) = js ''Hello | world''"
proof -
  have h: "fst (extractTranscript pageExample) \<noteq> []"
    by code_simp
  have v: "fst (extractContentAsText (Some (js '' | '')) pageExample) = js ''Hello | world''"
    by code_simp
  have t: "outcome (copyToClipboard grantingNavigator None (Some False) (Some (js '' | '')) pageExample) =
     True"
    using conjunct1 [OF copyToClipboard_roundtrip_completed
      [OF h, of grantingNavigator None "js '' | ''"]]
    by (simp add: grantingNavigator_def)
  note r = mp [OF conjunct2 [OF copyToClipboard_roundtrip_completed
      [OF h, of grantingNavigator None "js '' | ''"]] t]
  show ?thesis
    using h t r v by simp
qed

text \<open>
  Without the condition on the platform the round trip fails. The example page has
  entries, yet on a platform with no \<open>navigator.clipboard\<close> the call asks the clipboard
  for nothing and leaves it empty, and on a platform that refuses the write the clipboard
  does not hold \<open>extractContentAsText(sep)\<close> either.
\<close>

theorem copyToClipboard_roundtrip_counterexample:
  "fst (extractTranscript pageExample) \<noteq> [] \<and>
   fst (extractContentAsText (Some (js '' '')) pageExample) = js ''Hello world'' \<and>
   clipboardWrites (effects
     (copyToClipboard clipboardlessNavigator None (Some False) (Some (js '' '')) pageExample)) = [] \<and>
   clipboardAfter
     (copyToClipboard clipboardlessNavigator None (Some False) (Some (js '' '')) pageExample) = None \<and>
   clipboardAfter
     (copyToClipboard clipboardlessNavigator None (Some False) (Some (js '' '')) pageExample) \<noteq>
     Some (fst (extractContentAsText (Some (js '' '')) pageExample)) \<and>
   clipboardAfter
     (copyToClipboard denyingNavigator None (Some False) (Some (js '' '')) pageExample) \<noteq>
     Some (fst (extractContentAsText (Some (js '' '')) pageExample))"
  by code_simp

text \<open>
  C5. With zero entries \<open>copyToClipboard\<close> returns false after printing a warning, asks
  the clipboard for nothing and leaves it as it was, on every platform. With at least one
  entry: where \<open>navigator.clipboard\<close> is missing the \<open>try\<close> block is left with a
  TypeError before any write is asked for, the \<open>catch\<close> clause prints it and the result
  is false; where it exists the clipboard is asked to take one text, and when the platform
  takes it the result is true and the clipboard holds it, and when the platform fails with
  any error the \<open>try\<close> block is left with that error, the \<open>catch\<close> clause prints it,
  the result is false and the clipboard is as it was. The result is always a boolean,
  never the error.
\<close>

theorem copyToClipboard_result:
  fixes nav :: navigator and before :: "jsstring option"
    and includeTimestampsArg :: "bool option" and separatorArg :: "jsstring option"
    and doc :: document
  defines "attempt \<equiv> copyToClipboardTry nav before includeTimestampsArg separatorArg doc"
    and "run \<equiv> copyToClipboard nav before includeTimestampsArg separatorArg doc"
  shows
  "(fst (extractTranscript doc) = [] \<longrightarrow>
      outcome run = False \<and>
      effects run =
        snd (extractTranscript doc) @ [ConsoleWarn (js ''No transcript content found'')] \<and>
      clipboardWrites (effects run) = [] \<and>
      clipboardAfter run = before) \<and>
   (fst (extractTranscript doc) \<noteq> [] \<longrightarrow>
      (case clipboard nav of
         None \<Rightarrow>
           outcome attempt = Inl TypeError \<and>
           outcome run = False \<and>
           clipboardWrites (effects run) = [] \<and>
           last (effects run) = ConsoleError (js ''Failed to copy to clipboard:'') TypeError \<and>
           clipboardAfter run = before
       | Some writeText \<Rightarrow>
           (\<exists>payload.
              clipboardWrites (effects run) = [payload] \<and>
              (case writeText payload of
                 None \<Rightarrow> outcome run = True \<and> clipboardAfter run = Some payload
               | Some failure \<Rightarrow>
                   outcome attempt = Inl failure \<and>
                   outcome run = False \<and>
                   last (effects run) =
                     ConsoleError (js ''Failed to copy to clipboard:'') failure \<and>
                   clipboardAfter run = before))))"
proof -
  obtain entries printed where e: "extractTranscript doc = (entries, printed)"
    by (cases "extractTranscript doc")
  have p: "clipboardWrites printed = []"
    using clipboardWrites_extractTranscript [of doc] e by simp
  define payload where
    "payload = entriesText (case includeTimestampsArg of None \<Rightarrow> False | Some b \<Rightarrow> b)
       (case separatorArg of None \<Rightarrow> [0x000A, 0x000A] | Some s \<Rightarrow> s) entries"
  show ?thesis
  proof (cases "entries = []")
    case True
    with e p copyToClipboardTry_no_entries [of doc printed nav before includeTimestampsArg separatorArg]
    show ?thesis
      by (simp add: run_def copyToClipboard_def clipboardWrites_def)
  next
    case False
    show ?thesis
    proof (cases "clipboard nav")
      case None
      with False e p
        copyToClipboardTry_no_clipboard [of doc entries printed nav before includeTimestampsArg separatorArg]
      show ?thesis
        by (simp add: run_def attempt_def copyToClipboard_def clipboardWrites_def)
    next
      case (Some writeText)
      show ?thesis
      proof (cases "writeText payload")
        case None
        with False e p Some
          copyToClipboardTry_written [OF e False Some payload_def None, of before]
        show ?thesis
          by (auto simp: run_def attempt_def copyToClipboard_def clipboardWrites_def
              intro!: exI [of _ payload])
      next
        case (Some failure)
        with False e p \<open>clipboard nav = Some writeText\<close>
          copyToClipboardTry_failed [OF e False \<open>clipboard nav = Some writeText\<close> payload_def Some, of before]
        show ?thesis
          by (auto simp: run_def attempt_def copyToClipboard_def clipboardWrites_def
              intro!: exI [of _ payload])
      qed
    qed
  qed
qed

theorem copyToClipboard_result_witness:
  "fst (extractTranscript pageWithoutTranscript) = [] \<and>
   outcome (copyToClipboard grantingNavigator None None None pageWithoutTranscript) = False \<and>
   clipboardWrites (effects (copyToClipboard grantingNavigator None None None pageWithoutTranscript)) = [] \<and>
   fst (extractTranscript pageExample) \<noteq> [] \<and>
   clipboard grantingNavigator \<noteq> None \<and>
   outcome (copyToClipboard grantingNavigator None None None pageExample) = True \<and>
   clipboard denyingNavigator \<noteq> None \<and>
   outcome (copyToClipboard denyingNavigator None None None pageExample) = False \<and>
   clipboard clipboardlessNavigator = None \<and>
   outcome (copyToClipboard clipboardlessNavigator None None None pageExample) = False \<and>
   clipboardWrites (effects (copyToClipboard clipboardlessNavigator None None None pageExample)) = []"
proof -
  have h0: "fst (extractTranscript pageWithoutTranscript) = []"
    by code_simp
  have h1: "fst (extractTranscript pageExample) \<noteq> []"
    by code_simp
  note r0 = mp [OF conjunct1
    [OF copyToClipboard_result [of pageWithoutTranscript grantingNavigator None None None]] h0]
  have a1: "outcome (copyToClipboard grantingNavigator None None None pageWithoutTranscript) = False"
    by (rule conjunct1 [OF r0])
  have a2: "clipboardWrites
      (effects (copyToClipboard grantingNavigator None None None pageWithoutTranscript)) = []"
    by (rule conjunct1 [OF conjunct2 [OF conjunct2 [OF r0]]])
  have g: "clipboard grantingNavigator \<noteq> None"
    by (simp add: grantingNavigator_def)
  have b: "outcome (copyToClipboard grantingNavigator None None None pageExample) = True"
    using mp [OF conjunct2
      [OF copyToClipboard_result [of pageExample grantingNavigator None None None]] h1]
    by (auto simp: grantingNavigator_def)
  have d: "clipboard denyingNavigator \<noteq> None"
    by (simp add: denyingNavigator_def)
  have c: "outcome (copyToClipboard denyingNavigator None None None pageExample) = False"
    using mp [OF conjunct2
      [OF copyToClipboard_result [of pageExample denyingNavigator None None None]] h1]
    by (auto simp: denyingNavigator_def)
  have n: "clipboard clipboardlessNavigator = None"
    by (simp add: clipboardlessNavigator_def)
  have l: "outcome (copyToClipboard clipboardlessNavigator None None None pageExample) = False \<and>
      clipboardWrites
        (effects (copyToClipboard clipboardlessNavigator None None None pageExample)) = []"
    using mp [OF conjunct2
      [OF copyToClipboard_result [of pageExample clipboardlessNavigator None None None]] h1]
    by (simp add: clipboardlessNavigator_def)
  show ?thesis
    using h0 a1 a2 h1 g b d c n l by (intro conjI) simp_all
qed

text \<open>
  C6. With zero entries \<open>getSummary()\<close> returns zero entries, zero characters, one word
  (splitting the empty string at white space gives one empty token), the duration
  \<open>00:00:00\<close> and null first and last timestamps.
\<close>

theorem getSummary_no_entries:
  assumes "fst (extractTranscript doc) = []"
  shows "fst (getSummary doc) =
           \<lparr>totalEntries = 0, totalCharacters = 0, totalWords = 1,
            duration = js ''00:00:00'', firstTimestamp = None, lastTimestamp = None\<rparr>"
proof -
  obtain printed where e: "extractTranscript doc = ([], printed)"
    using assms by (cases "extractTranscript doc") simp
  then show ?thesis
    by (simp add: getSummary_def extractContentAsText_def extractContentOnly_def
        splitWhiteSpace_empty)
qed

theorem getSummary_no_entries_witness:
  "fst (extractTranscript pageWithEmptyTranscript) = [] \<and>
   fst (getSummary pageWithEmptyTranscript) =
     \<lparr>totalEntries = 0, totalCharacters = 0, totalWords = 1,
      duration = js ''00:00:00'', firstTimestamp = None, lastTimestamp = None\<rparr>"
proof -
  have h: "fst (extractTranscript pageWithEmptyTranscript) = []"
    by code_simp
  show ?thesis
    using getSummary_no_entries [OF h] h by simp
qed

text \<open>
  C7. With at least one entry the \<open>duration\<close> of \<open>getSummary()\<close> is the timestamp
  string of the last entry of \<open>extractTranscript()\<close>, \<open>firstTimestamp\<close> is the timestamp
  of the first entry and \<open>lastTimestamp\<close> that of the last.
\<close>

theorem getSummary_timestamps:
  assumes "fst (extractTranscript doc) \<noteq> []"
  shows "duration (fst (getSummary doc)) = timestamp (last (fst (extractTranscript doc))) \<and>
         firstTimestamp (fst (getSummary doc)) = Some (timestamp (hd (fst (extractTranscript doc)))) \<and>
         lastTimestamp (fst (getSummary doc)) = Some (timestamp (last (fst (extractTranscript doc))))"
proof -
  obtain entries printed where e: "extractTranscript doc = (entries, printed)"
    by (cases "extractTranscript doc")
  with assms have "entries \<noteq> []" by simp
  with e show ?thesis
    by (simp add: getSummary_def extractContentAsText_def extractContentOnly_def
        last_conv_nth hd_conv_nth)
qed

theorem getSummary_timestamps_witness:
  "fst (extractTranscript pageExample) \<noteq> [] \<and>
   duration (fst (getSummary pageExample)) = js ''00:00:05'' \<and>
   firstTimestamp (fst (getSummary pageExample)) = Some (js ''00:00:01'') \<and>
   lastTimestamp (fst (getSummary pageExample)) = Some (js ''00:00:05'')"
proof -
  have h: "fst (extractTranscript pageExample) \<noteq> []"
    by code_simp
  have l: "timestamp (last (fst (extractTranscript pageExample))) = js ''00:00:05''"
    by code_simp
  have f: "timestamp (hd (fst (extractTranscript pageExample))) = js ''00:00:01''"
    by code_simp
  show ?thesis
    using getSummary_timestamps [OF h] h l f by simp
qed

text \<open>
  C9. With zero entries \<open>downloadTranscript(filename, includeTimestamps, separator)\<close>
  returns normally without a value, and all it does is print: the lines of
  \<open>extractTranscript()\<close> followed by the warning \<open>No transcript content found\<close>. No
  blob, object URL or anchor is created and nothing is clicked.
\<close>

theorem downloadTranscript_no_entries:
  assumes "fst (extractTranscript doc) = []"
  shows "downloadTranscript filenameArg includeTimestampsArg separatorArg doc =
           (Inr (), snd (extractTranscript doc) @
                      [ConsoleWarn (js ''No transcript content found'')]) \<and>
         list_all isDiagnostic
           (snd (downloadTranscript filenameArg includeTimestampsArg separatorArg doc))"
proof -
  obtain printed where e: "extractTranscript doc = ([], printed)"
    using assms by (cases "extractTranscript doc") simp
  have "list_all isDiagnostic printed"
    using diagnostics_extractTranscript [of doc] e by simp
  with e show ?thesis
    by (simp add: downloadTranscript_def)
qed

theorem downloadTranscript_no_entries_witness:
  "fst (extractTranscript pageWithoutTranscript) = [] \<and>
   downloadTranscript (Some (js ''notes.txt'')) (Some True) (Some (js '' '')) pageWithoutTranscript =
     (Inr (), [ConsoleWarn (js ''Transcript body not found on this page''),
               ConsoleWarn (js ''No transcript content found'')])"
proof -
  have h: "fst (extractTranscript pageWithoutTranscript) = []"
    by code_simp
  have t: "snd (extractTranscript pageWithoutTranscript) =
      [ConsoleWarn (js ''Transcript body not found on this page'')]"
    by code_simp
  show ?thesis
    using downloadTranscript_no_entries [OF h, of "Some (js ''notes.txt'')" "Some True" "Some (js '' '')"] h t
    by simp
qed

text \<open>
  C10, with the platform made explicit. An omitted separator is two newlines for
  \<open>copyToClipboard\<close> and for \<open>downloadTranscript\<close> and one space for
  \<open>extractContentAsText\<close>: the blob of a download and the text handed to the clipboard
  are the contents joined with the separator argument, or with two newlines when it is
  omitted, and the text of \<open>extractContentAsText\<close> is the contents joined with the
  argument, or with one space. So with at least two entries the text that
  \<open>copyToClipboard()\<close> hands to \<open>navigator.clipboard\<close>, which the system clipboard
  holds once that write completes, differs from what \<open>extractContentAsText()\<close> returns.
  Where \<open>navigator.clipboard\<close> is missing or the write fails, nothing is written.
\<close>

theorem default_separators_pinned:
  fixes nav :: navigator and before :: "jsstring option" and doc :: document
    and separatorArg :: "jsstring option" and includeTimestampsArg :: "bool option"
    and filenameArg :: "jsstring option"
  defines "run \<equiv> copyToClipboard nav before None None doc"
    and "contents \<equiv> fst (extractContentOnly doc)"
    and "copied \<equiv> join [0x000A, 0x000A] (fst (extractContentOnly doc))"
  shows
  "fst (extractContentAsText separatorArg doc) =
     join (case separatorArg of None \<Rightarrow> js '' '' | Some s \<Rightarrow> s) contents \<and>
   (fst (extractTranscript doc) \<noteq> [] \<longrightarrow>
      blobTexts (snd (downloadTranscript filenameArg (Some False) separatorArg doc)) =
        [join (case separatorArg of None \<Rightarrow> [0x000A, 0x000A] | Some s \<Rightarrow> s) contents] \<and>
      blobTexts (snd (downloadTranscript filenameArg None None doc)) = [copied] \<and>
      clipboardWrites (effects (copyToClipboard nav before (Some False) separatorArg doc)) =
        (case clipboard nav of
           None \<Rightarrow> []
         | Some writeText \<Rightarrow>
             [join (case separatorArg of None \<Rightarrow> [0x000A, 0x000A] | Some s \<Rightarrow> s) contents])) \<and>
   copyToClipboard nav before includeTimestampsArg None doc =
     copyToClipboard nav before includeTimestampsArg (Some [0x000A, 0x000A]) doc \<and>
   downloadTranscript filenameArg includeTimestampsArg None doc =
     downloadTranscript filenameArg includeTimestampsArg (Some [0x000A, 0x000A]) doc \<and>
   [0x000A, 0x000A] \<noteq> js '' '' \<and>
   (2 \<le> length (fst (extractTranscript doc)) \<longrightarrow>
      copied \<noteq> fst (extractContentAsText None doc) \<and>
      (case clipboard nav of
         None \<Rightarrow> clipboardWrites (effects run) = [] \<and> clipboardAfter run = before
       | Some writeText \<Rightarrow>
           clipboardWrites (effects run) = [copied] \<and>
           (case writeText copied of
              None \<Rightarrow> clipboardAfter run = Some copied
            | Some failure \<Rightarrow> clipboardAfter run = before)))"
proof -
  obtain entries printed where e: "extractTranscript doc = (entries, printed)"
    by (cases "extractTranscript doc")
  have c: "contents = map content entries"
    using e by (simp add: contents_def extractContentOnly_def)
  have cp: "copied = join [0x000A, 0x000A] (map content entries)"
    using e by (simp add: copied_def extractContentOnly_def)
  have A: "fst (extractContentAsText separatorArg doc) =
     join (case separatorArg of None \<Rightarrow> js '' '' | Some s \<Rightarrow> s) contents"
    by (simp add: extractContentAsText_def contents_def split: prod.splits)
  have B: "blobTexts (snd (downloadTranscript filenameArg (Some False) separatorArg doc)) =
        [join (case separatorArg of None \<Rightarrow> [0x000A, 0x000A] | Some s \<Rightarrow> s) contents] \<and>
      blobTexts (snd (downloadTranscript filenameArg None None doc)) = [copied] \<and>
      clipboardWrites (effects (copyToClipboard nav before (Some False) separatorArg doc)) =
        (case clipboard nav of
           None \<Rightarrow> []
         | Some writeText \<Rightarrow>
             [join (case separatorArg of None \<Rightarrow> [0x000A, 0x000A] | Some s \<Rightarrow> s) contents])"
    if "entries \<noteq> []"
    using downloadTranscript_blob [OF e that] copyToClipboard_requests [OF e that]
    by (simp add: c cp entriesText_def split: option.splits)
  have C: "copyToClipboard nav before includeTimestampsArg None doc =
       copyToClipboard nav before includeTimestampsArg (Some [0x000A, 0x000A]) doc"
    "downloadTranscript filenameArg includeTimestampsArg None doc =
       downloadTranscript filenameArg includeTimestampsArg (Some [0x000A, 0x000A]) doc"
    by (simp_all add: copyToClipboard_def copyToClipboardTry_def downloadTranscript_def)
  have D: "[0x000A, 0x000A] \<noteq> js '' ''"
    by (simp add: js_def)
  have E: "copied \<noteq> fst (extractContentAsText None doc) \<and>
      (case clipboard nav of
         None \<Rightarrow> clipboardWrites (effects run) = [] \<and> clipboardAfter run = before
       | Some writeText \<Rightarrow>
           clipboardWrites (effects run) = [copied] \<and>
           (case writeText copied of
              None \<Rightarrow> clipboardAfter run = Some copied
            | Some failure \<Rightarrow> clipboardAfter run = before))"
    if two: "2 \<le> length entries"
  proof -
    from two have ne: "entries \<noteq> []" by auto
    have "length (join [0x000A, 0x000A] (map content entries)) \<noteq>
        length (join (js '' '') (map content entries))"
      using two by (simp add: length_join js_def)
    then have "join [0x000A, 0x000A] (map content entries) \<noteq>
        join (js '' '') (map content entries)"
      by auto
    then have "copied \<noteq> fst (extractContentAsText None doc)"
      using e
      by (simp add: extractContentAsText_def extractContentOnly_def cp)
    then show ?thesis
      using copyToClipboard_requests [OF e ne, of nav before None None]
        copyToClipboard_after [OF e ne, of nav before None None]
      by (simp add: run_def cp entriesText_def split: option.splits)
  qed
  show ?thesis
    using A B C D E e by simp
qed

theorem default_separators_pinned_witness:
  "2 \<le> length (fst (extractTranscript pageExample)) \<and>
   fst (extractTranscript pageExample) \<noteq> [] \<and>
   fst (extractContentAsText None pageExample) = js ''Hello world'' \<and>
   blobTexts (snd (downloadTranscript None None None pageExample)) =
     [js ''Hello'' @ [0x000A, 0x000A] @ js ''world''] \<and>
   clipboardWrites (effects (copyToClipboard grantingNavigator None None None pageExample)) =
     [js ''Hello'' @ [0x000A, 0x000A] @ js ''world''] \<and>
   clipboardAfter (copyToClipboard grantingNavigator None None None pageExample) =
     Some (js ''Hello'' @ [0x000A, 0x000A] @ js ''world'')"
proof -
  have h: "2 \<le> length (fst (extractTranscript pageExample))"
    by code_simp
  have ne: "fst (extractTranscript pageExample) \<noteq> []"
    by code_simp
  have j: "join [0x000A, 0x000A] (fst (extractContentOnly pageExample)) =
      js ''Hello'' @ [0x000A, 0x000A] @ js ''world''"
    by code_simp
  have t: "join (js '' '') (fst (extractContentOnly pageExample)) = js ''Hello world''"
    by code_simp
  note d = default_separators_pinned [of None pageExample None grantingNavigator None None]
  have a: "fst (extractContentAsText None pageExample) = js ''Hello world''"
    using conjunct1 [OF d] t by simp
  note b = mp [OF conjunct1 [OF conjunct2 [OF d]] ne]
  have b2: "blobTexts (snd (downloadTranscript None None None pageExample)) =
     [js ''Hello'' @ [0x000A, 0x000A] @ js ''world'']"
    using conjunct1 [OF conjunct2 [OF b]] j by simp
  note e = mp [OF conjunct2 [OF conjunct2 [OF conjunct2 [OF conjunct2 [OF conjunct2 [OF d]]]]] h]
  have w: "clipboardWrites (effects (copyToClipboard grantingNavigator None None None pageExample)) =
     [js ''Hello'' @ [0x000A, 0x000A] @ js ''world''] \<and>
   clipboardAfter (copyToClipboard grantingNavigator None None None pageExample) =
     Some (js ''Hello'' @ [0x000A, 0x000A] @ js ''world'')"
    using conjunct2 [OF e] j by (simp add: grantingNavigator_def)
  show ?thesis
    using h ne a b2 w by (intro conjI) simp_all
qed

text \<open>
  Without the condition on the platform the last part fails: the example page has two
  entries, yet with no \<open>navigator.clipboard\<close>, or with a clipboard that refuses the
  write, \<open>copyToClipboard()\<close> writes no string at all.
\<close>

theorem default_separators_counterexample:
  "2 \<le> length (fst (extractTranscript pageExample)) \<and>
   clipboardWrites (effects (copyToClipboard clipboardlessNavigator None None None pageExample)) = [] \<and>
   clipboardAfter (copyToClipboard clipboardlessNavigator None None None pageExample) = None \<and>
   clipboardAfter (copyToClipboard denyingNavigator None None None pageExample) = None"
  by code_simp

end
